theory Spec2Isabelle
  imports Main
begin

section \<open>Collection creation and management (src/collection.ts)\<close>

text \<open>
  The module is a thin layer over two external collaborators: the Metaplex SDK
  (\<open>metaplex.nfts()\<close>) and the host platform (\<open>fs\<close>, \<open>JSON\<close>, \<open>Connection\<close>,
  \<open>Keypair\<close>, \<open>console\<close>). Neither is code of the module, so both are parameters of
  the model: a record of operations over an arbitrary world \<open>'w\<close> that may fail with an
  arbitrary error \<open>'e\<close>. Every \<open>await\<close> is a sequential step; a rejected promise is the
  value \<open>Inl e\<close> and ends the function, as the uncaught exception does. Every call that
  leaves the module is appended to a trace, so that what was attempted, and in which
  order, can be stated. One run is modelled on its own: nothing else acts on the world
  between two of its steps.
\<close>

subsection \<open>Data\<close>

text \<open>
  A JavaScript \<open>number\<close> is modelled as an integer: the module never computes with the
  shares or the basis points, it only passes them on.
\<close>

type_synonym number = int

datatype PublicKey = PublicKey (toBase58: string)

record Keypair =
  publicKey :: PublicKey
  secretKey :: "nat list"

datatype Connection = Connection string

text \<open>The options object given to \<open>bundlrStorage\<close>.\<close>

record bundlr_options =
  bs_address :: string
  bs_providerUrl :: string
  bs_timeout :: number

text \<open>
  The value of \<open>Metaplex.make(connection).use(keypairIdentity(..)).use(bundlrStorage(..))\<close>:
  the connection, the identity plugin's key pair and the storage plugin's options.
\<close>

record Metaplex =
  mx_connection :: Connection
  mx_identity :: Keypair
  mx_storage :: bundlr_options

text \<open>The \<open>metadata\<close> parameter of \<open>uploadCollectionMetadata\<close> (lines 41-56).\<close>

record file_ref =
  file_uri :: string
  file_type :: string

record md_creator =
  mc_address :: string
  mc_share :: number

record md_properties =
  mp_files :: "file_ref list"
  mp_category :: string
  mp_creators :: "md_creator list"

record metadata =
  md_name :: string
  md_symbol :: string
  md_description :: string
  md_image :: string
  md_external_url :: "string option"
  md_seller_fee_basis_points :: number
  md_properties :: md_properties

text \<open>The \<open>collectionData\<close> parameter of \<open>createCollection\<close> (lines 66-77).\<close>

record creator =
  cr_address :: PublicKey
  cr_share :: number

record collectionData =
  cd_name :: string
  cd_symbol :: string
  cd_uri :: string
  cd_sellerFeeBasisPoints :: number
  cd_creators :: "creator list"
  cd_collection :: "PublicKey option"
  cd_isMutable :: "bool option"

text \<open>The object literal passed to \<open>metaplex.nfts().create\<close> (lines 81-89).\<close>

record create_input =
  ci_name :: string
  ci_symbol :: string
  ci_uri :: string
  ci_sellerFeeBasisPoints :: number
  ci_creators :: "creator list"
  ci_isMutable :: bool
  ci_isCollection :: bool

text \<open>
  The SDK's token object (\<open>nft\<close> of the create output, the result of \<open>findByMint\<close>). Its
  type is declared by the SDK; the record has the on-ledger fields of a collection
  record: address, name, symbol, content locator, royalty, creators, mutability flag.
\<close>

record nft =
  nft_address :: PublicKey
  nft_name :: string
  nft_symbol :: string
  nft_uri :: string
  nft_sellerFeeBasisPoints :: number
  nft_creators :: "creator list"
  nft_isMutable :: bool

text \<open>The object literals passed to \<open>verifyCollection\<close> (lines 106-109) and \<open>update\<close> (lines 126-129).\<close>

record verify_input =
  vi_mintAddress :: PublicKey
  vi_collectionMintAddress :: PublicKey

record update_input =
  ui_nftOrSft :: nft
  ui_uri :: string

subsection \<open>The collaborators\<close>

text \<open>
  \<open>metaplex.nfts()\<close>: each operation receives the session it is a method of and its
  input object, reads and changes the world, and resolves (\<open>Inr\<close>) or rejects (\<open>Inl\<close>).
  Of the upload output only \<open>uri\<close> is read, of the create output only \<open>nft\<close>.
\<close>

record ('w, 'e) nfts =
  nfts_uploadMetadata :: "Metaplex \<Rightarrow> metadata \<Rightarrow> 'w \<Rightarrow> ('e + string) \<times> 'w"
  nfts_create :: "Metaplex \<Rightarrow> create_input \<Rightarrow> 'w \<Rightarrow> ('e + nft) \<times> 'w"
  nfts_verifyCollection :: "Metaplex \<Rightarrow> verify_input \<Rightarrow> 'w \<Rightarrow> ('e + unit) \<times> 'w"
  nfts_findByMint :: "Metaplex \<Rightarrow> PublicKey \<Rightarrow> 'w \<Rightarrow> ('e + nft) \<times> 'w"
  nfts_update :: "Metaplex \<Rightarrow> update_input \<Rightarrow> 'w \<Rightarrow> ('e + unit) \<times> 'w"

text \<open>
  The host platform. \<open>new Connection(endpoint)\<close> either throws or is the connection to
  that endpoint; \<open>fs.readFileSync(path, encoding)\<close> returns the file's text or throws;
  \<open>host_keypairFromJSON\<close> stands for
  \<open>Keypair.fromSecretKey(Uint8Array.from(JSON.parse(text)))\<close>, which throws on text
  that is not a secret key.
\<close>

record ('w, 'e) host =
  host_newConnection :: "string \<Rightarrow> 'e option"
  host_readFileSync :: "string \<Rightarrow> string \<Rightarrow> 'w \<Rightarrow> ('e + string) \<times> 'w"
  host_keypairFromJSON :: "string \<Rightarrow> 'e + Keypair"

subsection \<open>State and trace\<close>

datatype event =
    ConsoleLog "string list"
  | ReadFileSync string string
  | UploadMetadata metadata
  | Create create_input
  | VerifyCollection verify_input
  | FindByMint PublicKey
  | Update update_input

record 'w state =
  trace :: "event list"
  world :: 'w

text \<open>A call that leaves the module: it is recorded when it is made, whatever its outcome.\<close>

definition invoke :: "event \<Rightarrow> ('w \<Rightarrow> ('e + 'a) \<times> 'w) \<Rightarrow> 'w state \<Rightarrow> ('e + 'a) \<times> 'w state" where
  "invoke ev f s =
     (case f (world s) of (r, w') \<Rightarrow> (r, \<lparr>trace = trace s @ [ev], world = w'\<rparr>))"

definition console_log :: "string list \<Rightarrow> 'w state \<Rightarrow> 'w state" where
  "console_log args s = s\<lparr>trace := trace s @ [ConsoleLog args]\<rparr>"

text \<open>The check mark U+2705 that starts three of the log lines, in UTF-8.\<close>

definition check_mark :: string where
  "check_mark = [CHR 0xE2, CHR 0x9C, CHR 0x85]"

subsection \<open>The operations\<close>

text \<open>\<open>initializeMetaplex\<close> (lines 21-36).\<close>

definition initializeMetaplex :: "('w, 'e) host \<Rightarrow> string \<Rightarrow> Keypair \<Rightarrow> 'e + Metaplex" where
  "initializeMetaplex h rpcEndpoint payerKeypair =
     (case host_newConnection h rpcEndpoint of
        Some e \<Rightarrow> Inl e
      | None \<Rightarrow>
          Inr \<lparr>mx_connection = Connection rpcEndpoint,
               mx_identity = payerKeypair,
               mx_storage = \<lparr>bs_address = ''https://devnet.bundlr.network'',
                              bs_providerUrl = rpcEndpoint,
                              bs_timeout = 60000\<rparr>\<rparr>)"

text \<open>\<open>uploadCollectionMetadata\<close> (lines 39-61).\<close>

definition uploadCollectionMetadata ::
  "('w, 'e) nfts \<Rightarrow> Metaplex \<Rightarrow> metadata \<Rightarrow> 'w state \<Rightarrow> ('e + string) \<times> 'w state" where
  "uploadCollectionMetadata sdk metaplex metadata s =
     (case invoke (UploadMetadata metadata) (nfts_uploadMetadata sdk metaplex metadata) s of
        (Inl e, s1) \<Rightarrow> (Inl e, s1)
      | (Inr uri, s1) \<Rightarrow> (Inr uri, console_log [''Metadata uploaded:'', uri] s1))"

text \<open>\<open>createCollection\<close> (lines 64-96). \<open>??\<close> takes its right operand when the left is absent.\<close>

definition createCollection ::
  "('w, 'e) nfts \<Rightarrow> Metaplex \<Rightarrow> collectionData \<Rightarrow> 'w state \<Rightarrow> ('e + nft) \<times> 'w state" where
  "createCollection sdk metaplex collectionData s =
     (let s0 = console_log [''Creating collection...''] s;
          req = \<lparr>ci_name = cd_name collectionData,
                 ci_symbol = cd_symbol collectionData,
                 ci_uri = cd_uri collectionData,
                 ci_sellerFeeBasisPoints = cd_sellerFeeBasisPoints collectionData,
                 ci_creators = cd_creators collectionData,
                 ci_isMutable = (case cd_isMutable collectionData of None \<Rightarrow> True | Some b \<Rightarrow> b),
                 ci_isCollection = True\<rparr> in
      case invoke (Create req) (nfts_create sdk metaplex req) s0 of
        (Inl e, s1) \<Rightarrow> (Inl e, s1)
      | (Inr collection, s1) \<Rightarrow>
          (Inr collection,
           console_log [''Metadata URI:'', nft_uri collection]
             (console_log [''Collection Address:'', toBase58 (nft_address collection)]
               (console_log [check_mark @ '' Collection created!''] s1))))"

text \<open>\<open>verifyCollection\<close> (lines 99-112).\<close>

definition verifyCollection ::
  "('w, 'e) nfts \<Rightarrow> Metaplex \<Rightarrow> PublicKey \<Rightarrow> PublicKey \<Rightarrow> 'w state \<Rightarrow> ('e + unit) \<times> 'w state" where
  "verifyCollection sdk metaplex collectionAddress nftAddress s =
     (let s0 = console_log [''Verifying collection...''] s;
          req = \<lparr>vi_mintAddress = nftAddress, vi_collectionMintAddress = collectionAddress\<rparr> in
      case invoke (VerifyCollection req) (nfts_verifyCollection sdk metaplex req) s0 of
        (Inl e, s1) \<Rightarrow> (Inl e, s1)
      | (Inr u, s1) \<Rightarrow> (Inr (), console_log [check_mark @ '' Collection verified!''] s1))"

text \<open>\<open>updateCollectionMetadata\<close> (lines 115-132).\<close>

definition updateCollectionMetadata ::
  "('w, 'e) nfts \<Rightarrow> Metaplex \<Rightarrow> PublicKey \<Rightarrow> string \<Rightarrow> 'w state \<Rightarrow> ('e + unit) \<times> 'w state" where
  "updateCollectionMetadata sdk metaplex collectionAddress newUri s =
     (let s0 = console_log [''Updating collection metadata...''] s in
      case invoke (FindByMint collectionAddress)
             (nfts_findByMint sdk metaplex collectionAddress) s0 of
        (Inl e, s1) \<Rightarrow> (Inl e, s1)
      | (Inr collection, s1) \<Rightarrow>
          (let req = \<lparr>ui_nftOrSft = collection, ui_uri = newUri\<rparr> in
           case invoke (Update req) (nfts_update sdk metaplex req) s1 of
             (Inl e, s2) \<Rightarrow> (Inl e, s2)
           | (Inr u, s2) \<Rightarrow>
               (Inr (), console_log [check_mark @ '' Collection metadata updated!''] s2)))"

text \<open>\<open>exampleCreateCollection\<close> (lines 135-190).\<close>

definition example_metadata :: "Keypair \<Rightarrow> metadata" where
  "example_metadata payerKeypair =
     \<lparr>md_name = ''My Hybrid Collection'',
      md_symbol = ''MHC'',
      md_description = ''A revolutionary hybrid NFT collection on Solana'',
      md_image = ''https://arweave.net/your-image-url'',
      md_external_url = Some ''https://yourwebsite.com'',
      md_seller_fee_basis_points = 500,
      md_properties =
        \<lparr>mp_files = [\<lparr>file_uri = ''https://arweave.net/your-image-url'',
                       file_type = ''image/png''\<rparr>],
         mp_category = ''image'',
         mp_creators = [\<lparr>mc_address = toBase58 (publicKey payerKeypair), mc_share = 100\<rparr>]\<rparr>\<rparr>"

definition example_collectionData :: "Keypair \<Rightarrow> metadata \<Rightarrow> string \<Rightarrow> collectionData" where
  "example_collectionData payerKeypair metadata uri =
     \<lparr>cd_name = md_name metadata,
      cd_symbol = md_symbol metadata,
      cd_uri = uri,
      cd_sellerFeeBasisPoints = md_seller_fee_basis_points metadata,
      cd_creators = [\<lparr>cr_address = publicKey payerKeypair, cr_share = 100\<rparr>],
      cd_collection = None,
      cd_isMutable = Some True\<rparr>"

definition exampleCreateCollection ::
  "('w, 'e) host \<Rightarrow> ('w, 'e) nfts \<Rightarrow> 'w state \<Rightarrow> ('e + nft) \<times> 'w state" where
  "exampleCreateCollection h sdk s =
     (case invoke (ReadFileSync ''./wallet.json'' ''utf-8'')
             (host_readFileSync h ''./wallet.json'' ''utf-8'') s of
        (Inl e, s1) \<Rightarrow> (Inl e, s1)
      | (Inr text, s1) \<Rightarrow>
          (case host_keypairFromJSON h text of
             Inl e \<Rightarrow> (Inl e, s1)
           | Inr payerKeypair \<Rightarrow>
               (case initializeMetaplex h ''https://api.devnet.solana.com'' payerKeypair of
                  Inl e \<Rightarrow> (Inl e, s1)
                | Inr metaplex \<Rightarrow>
                    (let metadata = example_metadata payerKeypair in
                     case uploadCollectionMetadata sdk metaplex metadata s1 of
                       (Inl e, s2) \<Rightarrow> (Inl e, s2)
                     | (Inr uri, s2) \<Rightarrow>
                         createCollection sdk metaplex
                           (example_collectionData payerKeypair metadata uri) s2))))"

subsection \<open>Reading a trace\<close>

text \<open>The calls to the SDK (content store and ledger), as opposed to console and file system.\<close>

fun is_sdk_call :: "event \<Rightarrow> bool" where
  "is_sdk_call (ConsoleLog args) = False"
| "is_sdk_call (ReadFileSync path enc) = False"
| "is_sdk_call (UploadMetadata m) = True"
| "is_sdk_call (Create c) = True"
| "is_sdk_call (VerifyCollection v) = True"
| "is_sdk_call (FindByMint a) = True"
| "is_sdk_call (Update u) = True"

definition sdk_calls :: "event list \<Rightarrow> event list" where
  "sdk_calls tr = filter is_sdk_call tr"

text \<open>The inputs of the create calls of a trace, in order.\<close>

fun creates_of :: "event list \<Rightarrow> create_input list" where
  "creates_of [] = []"
| "creates_of (Create c # es) = c # creates_of es"
| "creates_of (e # es) = creates_of es"

subsection \<open>The spec's invariant of a metadata document\<close>

text \<open>
  Section 3 of the spec, in its words: shares must sum to exactly 100; basis points must
  be within [0, 10000]. The module has no such check; the predicate is the spec's.
\<close>

definition spec_document_valid :: "metadata \<Rightarrow> bool" where
  "spec_document_valid m =
     (sum_list (map mc_share (mp_creators (md_properties m))) = 100 \<and>
      0 \<le> md_seller_fee_basis_points m \<and> md_seller_fee_basis_points m \<le> 10000)"

subsection \<open>What is assumed of the SDK\<close>

text \<open>
  Claims about the record the ledger holds or returns depend on what the SDK does, which
  the module cannot see. They are proved for every SDK that keeps the contract stated
  here, over a reading \<open>lookup\<close> of the ledger (\<open>queryAccount\<close> of the spec).

  \<open>create_echoes\<close>: the token a successful create returns carries the request's locator.
\<close>

definition create_echoes :: "('w, 'e) nfts \<Rightarrow> bool" where
  "create_echoes sdk =
     (\<forall>mx req w r w'. nfts_create sdk mx req w = (Inr r, w') \<longrightarrow> nft_uri r = ci_uri req)"

text \<open>\<open>findByMint_reads\<close>: a successful lookup returns the ledger's record and changes nothing.\<close>

definition findByMint_reads :: "('w, 'e) nfts \<Rightarrow> ('w \<Rightarrow> PublicKey \<Rightarrow> nft option) \<Rightarrow> bool" where
  "findByMint_reads sdk lookup =
     (\<forall>mx a w r w'. nfts_findByMint sdk mx a w = (Inr r, w') \<longrightarrow> w' = w \<and> lookup w a = Some r)"

text \<open>
  \<open>update_overwrites\<close>: an accepted update writes, at the address of the token object it
  was given, that object with the fields named in the request replaced (here only
  \<open>uri\<close>), and touches no other record. This is how the SDK builds the transaction: from
  the object passed as \<open>nftOrSft\<close>, not from the ledger.
\<close>

definition update_overwrites :: "('w, 'e) nfts \<Rightarrow> ('w \<Rightarrow> PublicKey \<Rightarrow> nft option) \<Rightarrow> bool" where
  "update_overwrites sdk lookup =
     (\<forall>mx req w w'. nfts_update sdk mx req w = (Inr (), w') \<longrightarrow>
        lookup w' = (lookup w)(nft_address (ui_nftOrSft req) \<mapsto>
                                 (ui_nftOrSft req)\<lparr>nft_uri := ui_uri req\<rparr>))"

text \<open>A ledger files each record under the record's own address.\<close>

definition addressed :: "(PublicKey \<Rightarrow> nft option) \<Rightarrow> bool" where
  "addressed l = (\<forall>a r. l a = Some r \<longrightarrow> nft_address r = a)"

subsection \<open>A test double\<close>

text \<open>
  An in-memory content store and ledger, used to run the operations on concrete inputs.
  The store answers with \<open>sw_locator\<close> (or rejects when there is none); the ledger
  accepts a create when \<open>sw_accepts_create\<close> and files the record under \<open>sw_next\<close>;
  it verifies membership in a collection that exists, keeps the accepted verifications,
  and accepts an update of a mutable record.
\<close>

datatype stub_error =
  ConfigurationError | ValidationError | PublishError | LedgerError | NotFoundError

record stub_world =
  sw_files :: "string \<Rightarrow> string option"
  sw_locator :: "string option"
  sw_accepts_create :: bool
  sw_next :: PublicKey
  sw_ledger :: "PublicKey \<Rightarrow> nft option"
  sw_verified :: "verify_input list"

definition stub_uploadMetadata :: "Metaplex \<Rightarrow> metadata \<Rightarrow> stub_world \<Rightarrow> (stub_error + string) \<times> stub_world" where
  "stub_uploadMetadata mx m w =
     (case sw_locator w of None \<Rightarrow> (Inl PublishError, w) | Some uri \<Rightarrow> (Inr uri, w))"

definition stub_create :: "Metaplex \<Rightarrow> create_input \<Rightarrow> stub_world \<Rightarrow> (stub_error + nft) \<times> stub_world" where
  "stub_create mx req w =
     (if sw_accepts_create w then
        (let r = \<lparr>nft_address = sw_next w,
                  nft_name = ci_name req,
                  nft_symbol = ci_symbol req,
                  nft_uri = ci_uri req,
                  nft_sellerFeeBasisPoints = ci_sellerFeeBasisPoints req,
                  nft_creators = ci_creators req,
                  nft_isMutable = ci_isMutable req\<rparr>
         in (Inr r, w\<lparr>sw_ledger := (sw_ledger w)(sw_next w \<mapsto> r)\<rparr>))
      else (Inl LedgerError, w))"

definition stub_verifyCollection :: "Metaplex \<Rightarrow> verify_input \<Rightarrow> stub_world \<Rightarrow> (stub_error + unit) \<times> stub_world" where
  "stub_verifyCollection mx req w =
     (case sw_ledger w (vi_collectionMintAddress req) of
        None \<Rightarrow> (Inl LedgerError, w)
      | Some c \<Rightarrow> (Inr (), w\<lparr>sw_verified := sw_verified w @ [req]\<rparr>))"

definition stub_findByMint :: "Metaplex \<Rightarrow> PublicKey \<Rightarrow> stub_world \<Rightarrow> (stub_error + nft) \<times> stub_world" where
  "stub_findByMint mx a w =
     (case sw_ledger w a of None \<Rightarrow> (Inl NotFoundError, w) | Some r \<Rightarrow> (Inr r, w))"

definition stub_update :: "Metaplex \<Rightarrow> update_input \<Rightarrow> stub_world \<Rightarrow> (stub_error + unit) \<times> stub_world" where
  "stub_update mx req w =
     (if nft_isMutable (ui_nftOrSft req) then
        (Inr (), w\<lparr>sw_ledger := (sw_ledger w)(nft_address (ui_nftOrSft req) \<mapsto>
                                     (ui_nftOrSft req)\<lparr>nft_uri := ui_uri req\<rparr>)\<rparr>)
      else (Inl LedgerError, w))"

definition stub_sdk :: "(stub_world, stub_error) nfts" where
  "stub_sdk =
     \<lparr>nfts_uploadMetadata = stub_uploadMetadata,
      nfts_create = stub_create,
      nfts_verifyCollection = stub_verifyCollection,
      nfts_findByMint = stub_findByMint,
      nfts_update = stub_update\<rparr>"

definition stub_keypair :: Keypair where
  "stub_keypair = \<lparr>publicKey = PublicKey ''payer'', secretKey = [7, 7, 7]\<rparr>"

definition stub_host :: "(stub_world, stub_error) host" where
  "stub_host =
     \<lparr>host_newConnection =
        (\<lambda>url. if take 5 url = ''http:'' \<or> take 6 url = ''https:'' then None
               else Some ConfigurationError),
      host_readFileSync =
        (\<lambda>path enc w. case sw_files w path of
                         None \<Rightarrow> (Inl ConfigurationError, w)
                       | Some text \<Rightarrow> (Inr text, w)),
      host_keypairFromJSON =
        (\<lambda>text. if text = ''[7,7,7]'' then Inr stub_keypair else Inl ConfigurationError)\<rparr>"

text \<open>A session on the test double, and worlds to start from.\<close>

definition stub_metaplex :: Metaplex where
  "stub_metaplex =
     \<lparr>mx_connection = Connection ''https://api.devnet.solana.com'',
      mx_identity = stub_keypair,
      mx_storage = \<lparr>bs_address = ''https://devnet.bundlr.network'',
                     bs_providerUrl = ''https://api.devnet.solana.com'',
                     bs_timeout = 60000\<rparr>\<rparr>"

definition stub_world0 :: stub_world where
  "stub_world0 =
     \<lparr>sw_files = [''./wallet.json'' \<mapsto> ''[7,7,7]''],
      sw_locator = Some ''loc://abc'',
      sw_accepts_create = True,
      sw_next = PublicKey ''addr123'',
      sw_ledger = Map.empty,
      sw_verified = []\<rparr>"

definition start :: "'w \<Rightarrow> 'w state" where
  "start w = \<lparr>trace = [], world = w\<rparr>"

text \<open>The spec's scenario document: two creators with shares 60 and 30.\<close>

definition scenario_metadata :: metadata where
  "scenario_metadata =
     \<lparr>md_name = ''X'',
      md_symbol = ''X'',
      md_description = [],
      md_image = [],
      md_external_url = None,
      md_seller_fee_basis_points = 500,
      md_properties =
        \<lparr>mp_files = [],
         mp_category = ''image'',
         mp_creators = [\<lparr>mc_address = ''A'', mc_share = 60\<rparr>,
                        \<lparr>mc_address = ''B'', mc_share = 30\<rparr>]\<rparr>\<rparr>"

text \<open>The record the scenario's create leaves on the ledger at \<open>addr123\<close>.\<close>

definition scenario_record :: nft where
  "scenario_record =
     \<lparr>nft_address = PublicKey ''addr123'',
      nft_name = ''X'',
      nft_symbol = ''X'',
      nft_uri = ''loc://abc'',
      nft_sellerFeeBasisPoints = 500,
      nft_creators = [\<lparr>cr_address = PublicKey ''payer'', cr_share = 100\<rparr>],
      nft_isMutable = True\<rparr>"

definition stub_world1 :: stub_world where
  "stub_world1 = stub_world0\<lparr>sw_ledger := [PublicKey ''addr123'' \<mapsto> scenario_record]\<rparr>"

section \<open>Properties\<close>

subsection \<open>Helper facts\<close>

lemma creates_of_append: "creates_of (xs @ ys) = creates_of xs @ creates_of ys"
  by (induction xs rule: creates_of.induct) simp_all

subsection \<open>The test double keeps the contract\<close>

lemma stub_create_echoes: "create_echoes stub_sdk"
  by (auto simp: create_echoes_def stub_sdk_def stub_create_def Let_def split: if_splits)

lemma stub_findByMint_reads: "findByMint_reads stub_sdk sw_ledger"
  by (auto simp: findByMint_reads_def stub_sdk_def stub_findByMint_def split: option.splits)

lemma stub_update_overwrites: "update_overwrites stub_sdk sw_ledger"
  by (auto simp: update_overwrites_def stub_sdk_def stub_update_def split: if_splits)

lemma stub_read_wallet:
  assumes "sw_files w ''./wallet.json'' = Some json"
  shows "host_readFileSync stub_host ''./wallet.json'' ''utf-8'' (world (start w)) = (Inr json, w)"
  using assms by (simp add: stub_host_def start_def)

lemma stub_wallet0: "sw_files stub_world0 ''./wallet.json'' = Some ''[7,7,7]''"
  by (simp add: stub_world0_def)

lemma stub_key: "host_keypairFromJSON stub_host ''[7,7,7]'' = Inr stub_keypair"
  by (simp add: stub_host_def)

lemma stub_session:
  "initializeMetaplex stub_host ''https://api.devnet.solana.com'' stub_keypair = Inr stub_metaplex"
  by (simp add: initializeMetaplex_def stub_host_def stub_metaplex_def)

subsection \<open>Session set-up\<close>

text \<open>
  C9. Whenever \<open>initializeMetaplex\<close> returns a session, for whatever \<open>rpcEndpoint\<close>, the
  storage plugin is configured with the address \<open>https://devnet.bundlr.network\<close> and the
  timeout 60000; only the storage provider URL and the ledger connection follow the
  endpoint argument, and the identity is the key pair given.
\<close>

theorem initializeMetaplex_storage_fixed:
  assumes "initializeMetaplex h rpcEndpoint payerKeypair = Inr mx"
  shows "mx_storage mx = \<lparr>bs_address = ''https://devnet.bundlr.network'',
                           bs_providerUrl = rpcEndpoint,
                           bs_timeout = 60000\<rparr>
         \<and> mx_connection mx = Connection rpcEndpoint
         \<and> mx_identity mx = payerKeypair"
  using assms by (auto simp: initializeMetaplex_def split: option.splits)

theorem initializeMetaplex_storage_fixed_witness:
  "initializeMetaplex stub_host ''https://api.mainnet-beta.solana.com'' stub_keypair
     = Inr (stub_metaplex\<lparr>mx_connection := Connection ''https://api.mainnet-beta.solana.com'',
              mx_storage := \<lparr>bs_address = ''https://devnet.bundlr.network'',
                              bs_providerUrl = ''https://api.mainnet-beta.solana.com'',
                              bs_timeout = 60000\<rparr>\<rparr>)
   \<and> bs_address (mx_storage (stub_metaplex\<lparr>mx_connection := Connection ''https://api.mainnet-beta.solana.com'',
              mx_storage := \<lparr>bs_address = ''https://devnet.bundlr.network'',
                              bs_providerUrl = ''https://api.mainnet-beta.solana.com'',
                              bs_timeout = 60000\<rparr>\<rparr>)) = ''https://devnet.bundlr.network''"
proof -
  have run: "initializeMetaplex stub_host ''https://api.mainnet-beta.solana.com'' stub_keypair
     = Inr (stub_metaplex\<lparr>mx_connection := Connection ''https://api.mainnet-beta.solana.com'',
              mx_storage := \<lparr>bs_address = ''https://devnet.bundlr.network'',
                              bs_providerUrl = ''https://api.mainnet-beta.solana.com'',
                              bs_timeout = 60000\<rparr>\<rparr>)"
    by (simp add: initializeMetaplex_def stub_host_def stub_metaplex_def)
  from initializeMetaplex_storage_fixed [OF run] run show ?thesis by simp
qed

subsection \<open>Publishing\<close>

text \<open>
  C1, as the code has it. \<open>uploadCollectionMetadata\<close> checks nothing locally: for every
  metadata document, whatever its creator shares and basis points, it makes exactly one
  upload call with the document unchanged, and its outcome is the outcome of that call
  (the locator, or the SDK's error); the module raises no error of its own.
\<close>

theorem uploadCollectionMetadata_always_uploads:
  "sdk_calls (trace (snd (uploadCollectionMetadata sdk mx m s)))
     = sdk_calls (trace s) @ [UploadMetadata m]
   \<and> fst (uploadCollectionMetadata sdk mx m s) = fst (nfts_uploadMetadata sdk mx m (world s))
   \<and> world (snd (uploadCollectionMetadata sdk mx m s)) = snd (nfts_uploadMetadata sdk mx m (world s))"
  by (cases "nfts_uploadMetadata sdk mx m (world s)")
     (simp add: uploadCollectionMetadata_def invoke_def console_log_def sdk_calls_def
           split: sum.splits)

text \<open>
  C1 as stated fails: the scenario document (shares 60 + 30 = 90) violates the spec's
  invariant, yet the upload call is made and the publish succeeds with the store's
  locator.
\<close>

theorem uploadCollectionMetadata_validation_counterexample:
  "\<not> spec_document_valid scenario_metadata
   \<and> fst (uploadCollectionMetadata stub_sdk stub_metaplex scenario_metadata (start stub_world0))
       = Inr ''loc://abc''
   \<and> sdk_calls (trace (snd (uploadCollectionMetadata stub_sdk stub_metaplex scenario_metadata
                                (start stub_world0))))
       = [UploadMetadata scenario_metadata]"
  by (simp add: spec_document_valid_def scenario_metadata_def uploadCollectionMetadata_def
        invoke_def console_log_def sdk_calls_def start_def stub_sdk_def
        stub_uploadMetadata_def stub_world0_def)

subsection \<open>Creating\<close>

text \<open>What \<open>createCollection\<close> does, by the outcome of the SDK's create call.\<close>

lemma createCollection_creates:
  "creates_of (trace (snd (createCollection sdk mx cd s)))
     = creates_of (trace s) @
       [\<lparr>ci_name = cd_name cd, ci_symbol = cd_symbol cd, ci_uri = cd_uri cd,
         ci_sellerFeeBasisPoints = cd_sellerFeeBasisPoints cd, ci_creators = cd_creators cd,
         ci_isMutable = (case cd_isMutable cd of None \<Rightarrow> True | Some b \<Rightarrow> b),
         ci_isCollection = True\<rparr>]"
  by (simp add: createCollection_def invoke_def console_log_def Let_def creates_of_append
        split: prod.splits sum.splits)

lemma createCollection_result:
  "fst (createCollection sdk mx cd s)
     = fst (nfts_create sdk mx
         \<lparr>ci_name = cd_name cd, ci_symbol = cd_symbol cd, ci_uri = cd_uri cd,
          ci_sellerFeeBasisPoints = cd_sellerFeeBasisPoints cd, ci_creators = cd_creators cd,
          ci_isMutable = (case cd_isMutable cd of None \<Rightarrow> True | Some b \<Rightarrow> b),
          ci_isCollection = True\<rparr> (world s))"
  by (simp add: createCollection_def invoke_def console_log_def Let_def
        split: prod.splits sum.splits)

text \<open>
  C6. A successful \<open>createCollection\<close> passes the locator it was given to the SDK
  unchanged and returns the SDK's token unchanged; so, on an SDK whose create returns
  the token with the request's locator, the returned record's \<open>uri\<close> is the input locator.
\<close>

theorem createCollection_uri_roundtrip:
  assumes "create_echoes sdk"
    and "createCollection sdk mx cd s = (Inr collection, s')"
  shows "nft_uri collection = cd_uri cd
         \<and> map ci_uri (creates_of (trace s')) = map ci_uri (creates_of (trace s)) @ [cd_uri cd]"
proof -
  from assms(2) have "fst (createCollection sdk mx cd s) = Inr collection" by simp
  then obtain w' where
    "nfts_create sdk mx
       \<lparr>ci_name = cd_name cd, ci_symbol = cd_symbol cd, ci_uri = cd_uri cd,
        ci_sellerFeeBasisPoints = cd_sellerFeeBasisPoints cd, ci_creators = cd_creators cd,
        ci_isMutable = (case cd_isMutable cd of None \<Rightarrow> True | Some b \<Rightarrow> b),
        ci_isCollection = True\<rparr> (world s) = (Inr collection, w')"
    unfolding createCollection_result by (metis prod.collapse)
  with assms(1) have "nft_uri collection = cd_uri cd"
    unfolding create_echoes_def by fastforce
  moreover from assms(2) have "s' = snd (createCollection sdk mx cd s)" by simp
  then have "map ci_uri (creates_of (trace s')) = map ci_uri (creates_of (trace s)) @ [cd_uri cd]"
    by (simp add: createCollection_creates)
  ultimately show ?thesis by simp
qed

theorem createCollection_uri_roundtrip_witness:
  "createCollection stub_sdk stub_metaplex
      (example_collectionData stub_keypair scenario_metadata ''loc://abc'') (start stub_world0)
     = (Inr scenario_record,
        \<lparr>trace = [ConsoleLog [''Creating collection...''],
                  Create \<lparr>ci_name = ''X'', ci_symbol = ''X'', ci_uri = ''loc://abc'',
                          ci_sellerFeeBasisPoints = 500,
                          ci_creators = [\<lparr>cr_address = PublicKey ''payer'', cr_share = 100\<rparr>],
                          ci_isMutable = True, ci_isCollection = True\<rparr>,
                  ConsoleLog [check_mark @ '' Collection created!''],
                  ConsoleLog [''Collection Address:'', ''addr123''],
                  ConsoleLog [''Metadata URI:'', ''loc://abc'']],
         world = stub_world1\<rparr>)
   \<and> nft_uri scenario_record
       = cd_uri (example_collectionData stub_keypair scenario_metadata ''loc://abc'')"
proof -
  have run: "createCollection stub_sdk stub_metaplex
      (example_collectionData stub_keypair scenario_metadata ''loc://abc'') (start stub_world0)
     = (Inr scenario_record,
        \<lparr>trace = [ConsoleLog [''Creating collection...''],
                  Create \<lparr>ci_name = ''X'', ci_symbol = ''X'', ci_uri = ''loc://abc'',
                          ci_sellerFeeBasisPoints = 500,
                          ci_creators = [\<lparr>cr_address = PublicKey ''payer'', cr_share = 100\<rparr>],
                          ci_isMutable = True, ci_isCollection = True\<rparr>,
                  ConsoleLog [check_mark @ '' Collection created!''],
                  ConsoleLog [''Collection Address:'', ''addr123''],
                  ConsoleLog [''Metadata URI:'', ''loc://abc'']],
         world = stub_world1\<rparr>)"
    by (simp add: createCollection_def invoke_def console_log_def start_def Let_def
          stub_sdk_def stub_create_def stub_world0_def stub_world1_def scenario_record_def
          example_collectionData_def scenario_metadata_def stub_keypair_def)
  from createCollection_uri_roundtrip [OF stub_create_echoes run] run
  show ?thesis by simp
qed


text \<open>
  C10. The optional \<open>collection\<close> field of the input is never read: changing it changes
  neither the create call issued, nor the result, nor the state left behind; and the
  create call issued always has \<open>isCollection = true\<close>.
\<close>

theorem createCollection_ignores_collection_field:
  "createCollection sdk mx (cd\<lparr>cd_collection := c\<rparr>) s = createCollection sdk mx cd s
   \<and> map ci_isCollection (creates_of (trace (snd (createCollection sdk mx cd s))))
     = map ci_isCollection (creates_of (trace s)) @ [True]"
  by (simp add: createCollection_creates) (simp add: createCollection_def)

subsection \<open>The operations, step by step\<close>

lemma uploadCollectionMetadata_rejected:
  assumes "nfts_uploadMetadata sdk mx m (world s) = (Inl e, w')"
  shows "uploadCollectionMetadata sdk mx m s
           = (Inl e, \<lparr>trace = trace s @ [UploadMetadata m], world = w'\<rparr>)"
  using assms by (simp add: uploadCollectionMetadata_def invoke_def)

lemma uploadCollectionMetadata_resolved:
  assumes "nfts_uploadMetadata sdk mx m (world s) = (Inr uri, w')"
  shows "uploadCollectionMetadata sdk mx m s
           = (Inr uri, \<lparr>trace = trace s @ [UploadMetadata m,
                                             ConsoleLog [''Metadata uploaded:'', uri]],
                        world = w'\<rparr>)"
  using assms by (simp add: uploadCollectionMetadata_def invoke_def console_log_def)

lemma createCollection_rejected:
  assumes "req = \<lparr>ci_name = cd_name cd, ci_symbol = cd_symbol cd, ci_uri = cd_uri cd,
                  ci_sellerFeeBasisPoints = cd_sellerFeeBasisPoints cd,
                  ci_creators = cd_creators cd,
                  ci_isMutable = (case cd_isMutable cd of None \<Rightarrow> True | Some b \<Rightarrow> b),
                  ci_isCollection = True\<rparr>"
    and "nfts_create sdk mx req (world s) = (Inl e, w')"
  shows "createCollection sdk mx cd s
           = (Inl e, \<lparr>trace = trace s @ [ConsoleLog [''Creating collection...''], Create req],
                      world = w'\<rparr>)"
  using assms by (simp add: createCollection_def invoke_def console_log_def)

lemma createCollection_calls:
  "\<exists>req. sdk_calls (trace (snd (createCollection sdk mx cd s))) = sdk_calls (trace s) @ [Create req]"
  by (simp add: createCollection_def invoke_def console_log_def Let_def sdk_calls_def
        split: prod.splits sum.splits)

lemma verifyCollection_accepted:
  assumes "nfts_verifyCollection sdk mx
             \<lparr>vi_mintAddress = n, vi_collectionMintAddress = c\<rparr> (world s) = (Inr (), w')"
  shows "verifyCollection sdk mx c n s
           = (Inr (), \<lparr>trace = trace s @
                          [ConsoleLog [''Verifying collection...''],
                           VerifyCollection \<lparr>vi_mintAddress = n, vi_collectionMintAddress = c\<rparr>,
                           ConsoleLog [check_mark @ '' Collection verified!'']],
                       world = w'\<rparr>)"
  using assms by (simp add: verifyCollection_def invoke_def console_log_def)

lemma updateCollectionMetadata_unresolved:
  assumes "nfts_findByMint sdk mx a (world s) = (Inl e, w')"
  shows "updateCollectionMetadata sdk mx a newUri s
           = (Inl e, \<lparr>trace = trace s @ [ConsoleLog [''Updating collection metadata...''],
                                          FindByMint a],
                      world = w'\<rparr>)"
  using assms by (simp add: updateCollectionMetadata_def invoke_def console_log_def)

lemma updateCollectionMetadata_succeeds:
  assumes "updateCollectionMetadata sdk mx a newUri s = (Inr (), s')"
  shows "\<exists>r w1. nfts_findByMint sdk mx a (world s) = (Inr r, w1)
               \<and> nfts_update sdk mx \<lparr>ui_nftOrSft = r, ui_uri = newUri\<rparr> w1 = (Inr (), world s')
               \<and> trace s' = trace s @
                   [ConsoleLog [''Updating collection metadata...''],
                    FindByMint a,
                    Update \<lparr>ui_nftOrSft = r, ui_uri = newUri\<rparr>,
                    ConsoleLog [check_mark @ '' Collection metadata updated!'']]"
  using assms
  by (auto simp: updateCollectionMetadata_def invoke_def console_log_def Let_def
           split: prod.splits sum.splits)

text \<open>The workflow up to the publish step: wallet read, key pair, session.\<close>

lemma exampleCreateCollection_set_up:
  assumes "host_readFileSync h ''./wallet.json'' ''utf-8'' (world s) = (Inr text, w1)"
    and "host_keypairFromJSON h text = Inr kp"
    and "initializeMetaplex h ''https://api.devnet.solana.com'' kp = Inr mx"
  shows "exampleCreateCollection h sdk s =
           (case uploadCollectionMetadata sdk mx (example_metadata kp)
                   \<lparr>trace = trace s @ [ReadFileSync ''./wallet.json'' ''utf-8''], world = w1\<rparr> of
              (Inl e, s2) \<Rightarrow> (Inl e, s2)
            | (Inr uri, s2) \<Rightarrow>
                createCollection sdk mx
                  (example_collectionData kp (example_metadata kp) uri) s2)"
  using assms by (simp add: exampleCreateCollection_def invoke_def Let_def)

lemma exampleCreateCollection_calls:
  "\<exists>m c. sdk_calls (trace (snd (exampleCreateCollection h sdk s))) = sdk_calls (trace s)
        \<or> sdk_calls (trace (snd (exampleCreateCollection h sdk s)))
            = sdk_calls (trace s) @ [UploadMetadata m]
        \<or> sdk_calls (trace (snd (exampleCreateCollection h sdk s)))
            = sdk_calls (trace s) @ [UploadMetadata m, Create c]"
proof (cases "host_readFileSync h ''./wallet.json'' ''utf-8'' (world s)")
  case (Pair r w1)
  show ?thesis
  proof (cases r)
    case (Inl e)
    with Pair have "sdk_calls (trace (snd (exampleCreateCollection h sdk s))) = sdk_calls (trace s)"
      by (simp add: exampleCreateCollection_def invoke_def sdk_calls_def)
    then show ?thesis by blast
  next
    case (Inr json)
    let ?s1 = "\<lparr>trace = trace s @ [ReadFileSync ''./wallet.json'' ''utf-8''], world = w1\<rparr>"
    have s1: "sdk_calls (trace ?s1) = sdk_calls (trace s)"
      by (simp add: sdk_calls_def)
    show ?thesis
    proof (cases "host_keypairFromJSON h json")
      case (Inl e)
      with Pair \<open>r = Inr json\<close>
      have "sdk_calls (trace (snd (exampleCreateCollection h sdk s))) = sdk_calls (trace s)"
        by (simp add: exampleCreateCollection_def invoke_def sdk_calls_def)
      then show ?thesis by blast
    next
      case kp: (Inr kp)
      show ?thesis
      proof (cases "initializeMetaplex h ''https://api.devnet.solana.com'' kp")
        case (Inl e)
        with Pair \<open>r = Inr json\<close> kp
        have "sdk_calls (trace (snd (exampleCreateCollection h sdk s))) = sdk_calls (trace s)"
          by (simp add: exampleCreateCollection_def invoke_def sdk_calls_def)
        then show ?thesis by blast
      next
        case mx: (Inr mx)
        from Pair \<open>r = Inr json\<close> have rd:
          "host_readFileSync h ''./wallet.json'' ''utf-8'' (world s) = (Inr json, w1)" by simp
        note run = exampleCreateCollection_set_up [OF rd kp mx, of sdk]
        obtain p w2 where up: "nfts_uploadMetadata sdk mx (example_metadata kp) w1 = (p, w2)"
          by (cases "nfts_uploadMetadata sdk mx (example_metadata kp) w1")
        show ?thesis
        proof (cases p)
          case (Inl e)
          with up have "uploadCollectionMetadata sdk mx (example_metadata kp) ?s1
                = (Inl e, \<lparr>trace = trace ?s1 @ [UploadMetadata (example_metadata kp)], world = w2\<rparr>)"
            by (simp add: uploadCollectionMetadata_rejected)
          with run have "sdk_calls (trace (snd (exampleCreateCollection h sdk s)))
                = sdk_calls (trace s) @ [UploadMetadata (example_metadata kp)]"
            by (simp add: sdk_calls_def)
          then show ?thesis by blast
        next
          case (Inr uri)
          let ?s2 = "\<lparr>trace = trace ?s1 @ [UploadMetadata (example_metadata kp),
                                            ConsoleLog [''Metadata uploaded:'', uri]],
                      world = w2\<rparr>"
          from Inr up have "uploadCollectionMetadata sdk mx (example_metadata kp) ?s1 = (Inr uri, ?s2)"
            by (simp add: uploadCollectionMetadata_resolved)
          with run have eq: "exampleCreateCollection h sdk s
                = createCollection sdk mx (example_collectionData kp (example_metadata kp) uri) ?s2"
            by simp
          have s2: "sdk_calls (trace ?s2) = sdk_calls (trace s) @ [UploadMetadata (example_metadata kp)]"
            by (simp add: sdk_calls_def)
          obtain c where "sdk_calls (trace (snd (createCollection sdk mx
                   (example_collectionData kp (example_metadata kp) uri) ?s2)))
                = sdk_calls (trace ?s2) @ [Create c]"
            using createCollection_calls by blast
          with eq s2 have "sdk_calls (trace (snd (exampleCreateCollection h sdk s)))
                = sdk_calls (trace s) @ [UploadMetadata (example_metadata kp), Create c]"
            by simp
          then show ?thesis by blast
        qed
      qed
    qed
  qed
qed

lemma exampleCreateCollection_publish_rejected:
  assumes "host_readFileSync h ''./wallet.json'' ''utf-8'' (world s) = (Inr text, w1)"
    and "host_keypairFromJSON h text = Inr kp"
    and "initializeMetaplex h ''https://api.devnet.solana.com'' kp = Inr mx"
    and "nfts_uploadMetadata sdk mx (example_metadata kp) w1 = (Inl e, w2)"
  shows "exampleCreateCollection h sdk s
           = (Inl e, \<lparr>trace = trace s @ [ReadFileSync ''./wallet.json'' ''utf-8'',
                                          UploadMetadata (example_metadata kp)],
                      world = w2\<rparr>)"
proof -
  note run = exampleCreateCollection_set_up [OF assms(1) assms(2) assms(3), of sdk]
  from assms(4) show ?thesis
    unfolding run by (simp add: uploadCollectionMetadata_rejected)
qed

lemma exampleCreateCollection_create_step_rejected:
  assumes "host_readFileSync h ''./wallet.json'' ''utf-8'' (world s) = (Inr json, w1)"
    and "host_keypairFromJSON h json = Inr kp"
    and "initializeMetaplex h ''https://api.devnet.solana.com'' kp = Inr mx"
    and "nfts_uploadMetadata sdk mx (example_metadata kp) w1 = (Inr uri, w2)"
    and "nfts_create sdk mx
           \<lparr>ci_name = ''My Hybrid Collection'', ci_symbol = ''MHC'', ci_uri = uri,
            ci_sellerFeeBasisPoints = 500,
            ci_creators = [\<lparr>cr_address = publicKey kp, cr_share = 100\<rparr>],
            ci_isMutable = True, ci_isCollection = True\<rparr> w2 = (Inl e, w3)"
  shows "exampleCreateCollection h sdk s
           = (Inl e,
              \<lparr>trace = trace s @
                 [ReadFileSync ''./wallet.json'' ''utf-8'',
                  UploadMetadata (example_metadata kp),
                  ConsoleLog [''Metadata uploaded:'', uri],
                  ConsoleLog [''Creating collection...''],
                  Create \<lparr>ci_name = ''My Hybrid Collection'', ci_symbol = ''MHC'', ci_uri = uri,
                          ci_sellerFeeBasisPoints = 500,
                          ci_creators = [\<lparr>cr_address = publicKey kp, cr_share = 100\<rparr>],
                          ci_isMutable = True, ci_isCollection = True\<rparr>],
               world = w3\<rparr>)"
proof -
  note run = exampleCreateCollection_set_up [OF assms(1) assms(2) assms(3), of sdk]
  let ?s2 = "\<lparr>trace = (trace s @ [ReadFileSync ''./wallet.json'' ''utf-8'']) @
                       [UploadMetadata (example_metadata kp),
                        ConsoleLog [''Metadata uploaded:'', uri]],
              world = w2\<rparr>"
  from assms(4) have up: "uploadCollectionMetadata sdk mx (example_metadata kp)
        \<lparr>trace = trace s @ [ReadFileSync ''./wallet.json'' ''utf-8''], world = w1\<rparr>
      = (Inr uri, ?s2)"
    by (simp add: uploadCollectionMetadata_resolved)
  have "createCollection sdk mx (example_collectionData kp (example_metadata kp) uri) ?s2
      = (Inl e, \<lparr>trace = trace ?s2 @ [ConsoleLog [''Creating collection...''],
           Create \<lparr>ci_name = ''My Hybrid Collection'', ci_symbol = ''MHC'', ci_uri = uri,
                   ci_sellerFeeBasisPoints = 500,
                   ci_creators = [\<lparr>cr_address = publicKey kp, cr_share = 100\<rparr>],
                   ci_isMutable = True, ci_isCollection = True\<rparr>], world = w3\<rparr>)"
    by (rule createCollection_rejected)
       (simp_all add: example_collectionData_def example_metadata_def assms(5))
  with up show ?thesis unfolding run by simp
qed

lemma createCollection_sdk_calls:
  "sdk_calls (trace (snd (createCollection sdk mx cd s)))
     = sdk_calls (trace s) @
       [Create \<lparr>ci_name = cd_name cd, ci_symbol = cd_symbol cd, ci_uri = cd_uri cd,
                ci_sellerFeeBasisPoints = cd_sellerFeeBasisPoints cd,
                ci_creators = cd_creators cd,
                ci_isMutable = (case cd_isMutable cd of None \<Rightarrow> True | Some b \<Rightarrow> b),
                ci_isCollection = True\<rparr>]"
  by (simp add: createCollection_def invoke_def console_log_def Let_def sdk_calls_def
        split: prod.splits sum.splits)

lemma createCollection_world:
  "world (snd (createCollection sdk mx cd s))
     = snd (nfts_create sdk mx
         \<lparr>ci_name = cd_name cd, ci_symbol = cd_symbol cd, ci_uri = cd_uri cd,
          ci_sellerFeeBasisPoints = cd_sellerFeeBasisPoints cd, ci_creators = cd_creators cd,
          ci_isMutable = (case cd_isMutable cd of None \<Rightarrow> True | Some b \<Rightarrow> b),
          ci_isCollection = True\<rparr> (world s))"
  by (simp add: createCollection_def invoke_def console_log_def Let_def
        split: prod.splits sum.splits)

lemma exampleCreateCollection_publish_resolved:
  assumes "host_readFileSync h ''./wallet.json'' ''utf-8'' (world s) = (Inr json, w1)"
    and "host_keypairFromJSON h json = Inr kp"
    and "initializeMetaplex h ''https://api.devnet.solana.com'' kp = Inr mx"
    and "nfts_uploadMetadata sdk mx (example_metadata kp) w1 = (Inr uri, w2)"
  shows "exampleCreateCollection h sdk s
           = createCollection sdk mx (example_collectionData kp (example_metadata kp) uri)
               \<lparr>trace = trace s @ [ReadFileSync ''./wallet.json'' ''utf-8'',
                                   UploadMetadata (example_metadata kp),
                                   ConsoleLog [''Metadata uploaded:'', uri]],
                world = w2\<rparr>"
proof -
  note run = exampleCreateCollection_set_up [OF assms(1) assms(2) assms(3), of sdk]
  from assms(4) show ?thesis
    unfolding run by (simp add: uploadCollectionMetadata_resolved)
qed

subsection \<open>The workflow\<close>

text \<open>
  C2. In every run of \<open>exampleCreateCollection\<close> the SDK calls made are none, or the
  upload alone, or the upload followed by the create: a create is never made without
  the upload before it. When the run reaches the publish step and the upload is
  rejected, the run ends with that error and the upload is the only SDK call: the
  create step is not attempted. When the upload resolves with a locator, the create
  call follows it, carrying that locator, and the run's result is the result of that
  create call.
\<close>

theorem exampleCreateCollection_publish_before_create:
  "(\<exists>m c. sdk_calls (trace (snd (exampleCreateCollection h sdk s))) = sdk_calls (trace s)
         \<or> sdk_calls (trace (snd (exampleCreateCollection h sdk s)))
             = sdk_calls (trace s) @ [UploadMetadata m]
         \<or> sdk_calls (trace (snd (exampleCreateCollection h sdk s)))
             = sdk_calls (trace s) @ [UploadMetadata m, Create c])
   \<and> (\<forall>json w1 kp mx e w2.
         host_readFileSync h ''./wallet.json'' ''utf-8'' (world s) = (Inr json, w1)
         \<and> host_keypairFromJSON h json = Inr kp
         \<and> initializeMetaplex h ''https://api.devnet.solana.com'' kp = Inr mx
         \<and> nfts_uploadMetadata sdk mx (example_metadata kp) w1 = (Inl e, w2)
         \<longrightarrow> fst (exampleCreateCollection h sdk s) = Inl e
             \<and> sdk_calls (trace (snd (exampleCreateCollection h sdk s)))
                 = sdk_calls (trace s) @ [UploadMetadata (example_metadata kp)]
             \<and> creates_of (trace (snd (exampleCreateCollection h sdk s))) = creates_of (trace s))
   \<and> (\<forall>json w1 kp mx uri w2.
         host_readFileSync h ''./wallet.json'' ''utf-8'' (world s) = (Inr json, w1)
         \<and> host_keypairFromJSON h json = Inr kp
         \<and> initializeMetaplex h ''https://api.devnet.solana.com'' kp = Inr mx
         \<and> nfts_uploadMetadata sdk mx (example_metadata kp) w1 = (Inr uri, w2)
         \<longrightarrow> sdk_calls (trace (snd (exampleCreateCollection h sdk s)))
                 = sdk_calls (trace s) @
                   [UploadMetadata (example_metadata kp),
                    Create \<lparr>ci_name = ''My Hybrid Collection'', ci_symbol = ''MHC'',
                            ci_uri = uri, ci_sellerFeeBasisPoints = 500,
                            ci_creators = [\<lparr>cr_address = publicKey kp, cr_share = 100\<rparr>],
                            ci_isMutable = True, ci_isCollection = True\<rparr>]
             \<and> fst (exampleCreateCollection h sdk s)
                 = fst (nfts_create sdk mx
                          \<lparr>ci_name = ''My Hybrid Collection'', ci_symbol = ''MHC'',
                           ci_uri = uri, ci_sellerFeeBasisPoints = 500,
                           ci_creators = [\<lparr>cr_address = publicKey kp, cr_share = 100\<rparr>],
                           ci_isMutable = True, ci_isCollection = True\<rparr> w2)
             \<and> world (snd (exampleCreateCollection h sdk s))
                 = snd (nfts_create sdk mx
                          \<lparr>ci_name = ''My Hybrid Collection'', ci_symbol = ''MHC'',
                           ci_uri = uri, ci_sellerFeeBasisPoints = 500,
                           ci_creators = [\<lparr>cr_address = publicKey kp, cr_share = 100\<rparr>],
                           ci_isMutable = True, ci_isCollection = True\<rparr> w2))"
proof (intro conjI allI impI)
  show "\<exists>m c. sdk_calls (trace (snd (exampleCreateCollection h sdk s))) = sdk_calls (trace s)
         \<or> sdk_calls (trace (snd (exampleCreateCollection h sdk s)))
             = sdk_calls (trace s) @ [UploadMetadata m]
         \<or> sdk_calls (trace (snd (exampleCreateCollection h sdk s)))
             = sdk_calls (trace s) @ [UploadMetadata m, Create c]"
    by (rule exampleCreateCollection_calls)
next
  fix json w1 kp mx e w2
  assume a: "host_readFileSync h ''./wallet.json'' ''utf-8'' (world s) = (Inr json, w1)
         \<and> host_keypairFromJSON h json = Inr kp
         \<and> initializeMetaplex h ''https://api.devnet.solana.com'' kp = Inr mx
         \<and> nfts_uploadMetadata sdk mx (example_metadata kp) w1 = (Inl e, w2)"
  from a have rd: "host_readFileSync h ''./wallet.json'' ''utf-8'' (world s) = (Inr json, w1)"
    and key: "host_keypairFromJSON h json = Inr kp"
    and conn: "initializeMetaplex h ''https://api.devnet.solana.com'' kp = Inr mx"
    and up: "nfts_uploadMetadata sdk mx (example_metadata kp) w1 = (Inl e, w2)"
    by simp_all
  have run: "exampleCreateCollection h sdk s
           = (Inl e, \<lparr>trace = trace s @ [ReadFileSync ''./wallet.json'' ''utf-8'',
                                          UploadMetadata (example_metadata kp)],
                      world = w2\<rparr>)"
    by (rule exampleCreateCollection_publish_rejected [OF rd key conn up])
  show "fst (exampleCreateCollection h sdk s) = Inl e"
    by (simp add: run)
  show "sdk_calls (trace (snd (exampleCreateCollection h sdk s)))
          = sdk_calls (trace s) @ [UploadMetadata (example_metadata kp)]"
    by (simp add: run sdk_calls_def)
  show "creates_of (trace (snd (exampleCreateCollection h sdk s))) = creates_of (trace s)"
    by (simp add: run creates_of_append)
next
  fix json w1 kp mx uri w2
  assume a: "host_readFileSync h ''./wallet.json'' ''utf-8'' (world s) = (Inr json, w1)
         \<and> host_keypairFromJSON h json = Inr kp
         \<and> initializeMetaplex h ''https://api.devnet.solana.com'' kp = Inr mx
         \<and> nfts_uploadMetadata sdk mx (example_metadata kp) w1 = (Inr uri, w2)"
  from a have rd: "host_readFileSync h ''./wallet.json'' ''utf-8'' (world s) = (Inr json, w1)"
    and key: "host_keypairFromJSON h json = Inr kp"
    and conn: "initializeMetaplex h ''https://api.devnet.solana.com'' kp = Inr mx"
    and up: "nfts_uploadMetadata sdk mx (example_metadata kp) w1 = (Inr uri, w2)"
    by simp_all
  note run = exampleCreateCollection_publish_resolved [OF rd key conn up]
  show "sdk_calls (trace (snd (exampleCreateCollection h sdk s)))
          = sdk_calls (trace s) @
            [UploadMetadata (example_metadata kp),
             Create \<lparr>ci_name = ''My Hybrid Collection'', ci_symbol = ''MHC'',
                     ci_uri = uri, ci_sellerFeeBasisPoints = 500,
                     ci_creators = [\<lparr>cr_address = publicKey kp, cr_share = 100\<rparr>],
                     ci_isMutable = True, ci_isCollection = True\<rparr>]"
    unfolding run createCollection_sdk_calls
    by (simp add: sdk_calls_def example_collectionData_def example_metadata_def)
  show "fst (exampleCreateCollection h sdk s)
          = fst (nfts_create sdk mx
                   \<lparr>ci_name = ''My Hybrid Collection'', ci_symbol = ''MHC'',
                    ci_uri = uri, ci_sellerFeeBasisPoints = 500,
                    ci_creators = [\<lparr>cr_address = publicKey kp, cr_share = 100\<rparr>],
                    ci_isMutable = True, ci_isCollection = True\<rparr> w2)"
    unfolding run createCollection_result
    by (simp add: example_collectionData_def example_metadata_def)
  show "world (snd (exampleCreateCollection h sdk s))
          = snd (nfts_create sdk mx
                   \<lparr>ci_name = ''My Hybrid Collection'', ci_symbol = ''MHC'',
                    ci_uri = uri, ci_sellerFeeBasisPoints = 500,
                    ci_creators = [\<lparr>cr_address = publicKey kp, cr_share = 100\<rparr>],
                    ci_isMutable = True, ci_isCollection = True\<rparr> w2)"
    unfolding run createCollection_world
    by (simp add: example_collectionData_def example_metadata_def)
qed

theorem exampleCreateCollection_publish_before_create_witness:
  "nfts_uploadMetadata stub_sdk stub_metaplex (example_metadata stub_keypair)
       (stub_world0\<lparr>sw_locator := None\<rparr>)
     = (Inl PublishError, stub_world0\<lparr>sw_locator := None\<rparr>)
   \<and> fst (exampleCreateCollection stub_host stub_sdk (start (stub_world0\<lparr>sw_locator := None\<rparr>)))
       = Inl PublishError
   \<and> sdk_calls (trace (snd (exampleCreateCollection stub_host stub_sdk
                                (start (stub_world0\<lparr>sw_locator := None\<rparr>)))))
       = [UploadMetadata (example_metadata stub_keypair)]
   \<and> nfts_uploadMetadata stub_sdk stub_metaplex (example_metadata stub_keypair) stub_world0
       = (Inr ''loc://abc'', stub_world0)
   \<and> sdk_calls (trace (snd (exampleCreateCollection stub_host stub_sdk (start stub_world0))))
       = [UploadMetadata (example_metadata stub_keypair),
          Create \<lparr>ci_name = ''My Hybrid Collection'', ci_symbol = ''MHC'',
                  ci_uri = ''loc://abc'', ci_sellerFeeBasisPoints = 500,
                  ci_creators = [\<lparr>cr_address = PublicKey ''payer'', cr_share = 100\<rparr>],
                  ci_isMutable = True, ci_isCollection = True\<rparr>]
   \<and> fst (exampleCreateCollection stub_host stub_sdk (start stub_world0))
       = Inr \<lparr>nft_address = PublicKey ''addr123'', nft_name = ''My Hybrid Collection'',
              nft_symbol = ''MHC'', nft_uri = ''loc://abc'', nft_sellerFeeBasisPoints = 500,
              nft_creators = [\<lparr>cr_address = PublicKey ''payer'', cr_share = 100\<rparr>],
              nft_isMutable = True\<rparr>"
proof -
  let ?w = "stub_world0\<lparr>sw_locator := None\<rparr>"
  have rd: "host_readFileSync stub_host ''./wallet.json'' ''utf-8'' (world (start ?w))
              = (Inr ''[7,7,7]'', ?w)"
    by (rule stub_read_wallet) (simp add: stub_wallet0)
  have up: "nfts_uploadMetadata stub_sdk stub_metaplex (example_metadata stub_keypair) ?w
              = (Inl PublishError, ?w)"
    by (simp add: stub_sdk_def stub_uploadMetadata_def)
  from exampleCreateCollection_publish_before_create [of stub_host stub_sdk "start ?w"]
  have rejected: "fst (exampleCreateCollection stub_host stub_sdk (start ?w)) = Inl PublishError
        \<and> sdk_calls (trace (snd (exampleCreateCollection stub_host stub_sdk (start ?w))))
            = sdk_calls (trace (start ?w)) @ [UploadMetadata (example_metadata stub_keypair)]"
    using rd stub_key stub_session up by blast
  have rd0: "host_readFileSync stub_host ''./wallet.json'' ''utf-8'' (world (start stub_world0))
              = (Inr ''[7,7,7]'', stub_world0)"
    by (rule stub_read_wallet) (rule stub_wallet0)
  have up0: "nfts_uploadMetadata stub_sdk stub_metaplex (example_metadata stub_keypair) stub_world0
              = (Inr ''loc://abc'', stub_world0)"
    by (simp add: stub_sdk_def stub_uploadMetadata_def stub_world0_def)
  from exampleCreateCollection_publish_before_create [of stub_host stub_sdk "start stub_world0"]
  have resolved: "sdk_calls (trace (snd (exampleCreateCollection stub_host stub_sdk (start stub_world0))))
            = sdk_calls (trace (start stub_world0)) @
              [UploadMetadata (example_metadata stub_keypair),
               Create \<lparr>ci_name = ''My Hybrid Collection'', ci_symbol = ''MHC'',
                       ci_uri = ''loc://abc'', ci_sellerFeeBasisPoints = 500,
                       ci_creators = [\<lparr>cr_address = publicKey stub_keypair, cr_share = 100\<rparr>],
                       ci_isMutable = True, ci_isCollection = True\<rparr>]
        \<and> fst (exampleCreateCollection stub_host stub_sdk (start stub_world0))
            = fst (nfts_create stub_sdk stub_metaplex
                     \<lparr>ci_name = ''My Hybrid Collection'', ci_symbol = ''MHC'',
                      ci_uri = ''loc://abc'', ci_sellerFeeBasisPoints = 500,
                      ci_creators = [\<lparr>cr_address = publicKey stub_keypair, cr_share = 100\<rparr>],
                      ci_isMutable = True, ci_isCollection = True\<rparr> stub_world0)"
    using rd0 stub_key stub_session up0 by blast
  have cr0: "fst (nfts_create stub_sdk stub_metaplex
                     \<lparr>ci_name = ''My Hybrid Collection'', ci_symbol = ''MHC'',
                      ci_uri = ''loc://abc'', ci_sellerFeeBasisPoints = 500,
                      ci_creators = [\<lparr>cr_address = publicKey stub_keypair, cr_share = 100\<rparr>],
                      ci_isMutable = True, ci_isCollection = True\<rparr> stub_world0)
       = Inr \<lparr>nft_address = PublicKey ''addr123'', nft_name = ''My Hybrid Collection'',
              nft_symbol = ''MHC'', nft_uri = ''loc://abc'', nft_sellerFeeBasisPoints = 500,
              nft_creators = [\<lparr>cr_address = PublicKey ''payer'', cr_share = 100\<rparr>],
              nft_isMutable = True\<rparr>"
    by (simp add: stub_sdk_def stub_create_def stub_world0_def stub_keypair_def Let_def)
  from rejected resolved cr0 up up0 show ?thesis
    by (simp add: start_def sdk_calls_def stub_keypair_def)
qed

text \<open>
  C3, as the code has it. When the publish step has succeeded and the create call is
  rejected, the workflow's result is the create call's error as the SDK raised it,
  with nothing attached; the locator is not returned. It shows only in the console
  line \<open>Metadata uploaded: uri\<close> written by the publish step, and in the rejected
  create request.
\<close>

theorem exampleCreateCollection_create_failure_drops_locator:
  assumes "host_readFileSync h ''./wallet.json'' ''utf-8'' (world s) = (Inr json, w1)"
    and "host_keypairFromJSON h json = Inr kp"
    and "initializeMetaplex h ''https://api.devnet.solana.com'' kp = Inr mx"
    and "nfts_uploadMetadata sdk mx (example_metadata kp) w1 = (Inr uri, w2)"
    and "nfts_create sdk mx
           \<lparr>ci_name = ''My Hybrid Collection'', ci_symbol = ''MHC'', ci_uri = uri,
            ci_sellerFeeBasisPoints = 500,
            ci_creators = [\<lparr>cr_address = publicKey kp, cr_share = 100\<rparr>],
            ci_isMutable = True, ci_isCollection = True\<rparr> w2 = (Inl e, w3)"
  shows "fst (exampleCreateCollection h sdk s) = Inl e
         \<and> world (snd (exampleCreateCollection h sdk s)) = w3
         \<and> trace (snd (exampleCreateCollection h sdk s))
             = trace s @
                 [ReadFileSync ''./wallet.json'' ''utf-8'',
                  UploadMetadata (example_metadata kp),
                  ConsoleLog [''Metadata uploaded:'', uri],
                  ConsoleLog [''Creating collection...''],
                  Create \<lparr>ci_name = ''My Hybrid Collection'', ci_symbol = ''MHC'', ci_uri = uri,
                          ci_sellerFeeBasisPoints = 500,
                          ci_creators = [\<lparr>cr_address = publicKey kp, cr_share = 100\<rparr>],
                          ci_isMutable = True, ci_isCollection = True\<rparr>]"
  by (simp add: exampleCreateCollection_create_step_rejected [OF assms])

theorem exampleCreateCollection_create_failure_drops_locator_witness:
  "exampleCreateCollection stub_host stub_sdk (start (stub_world0\<lparr>sw_accepts_create := False\<rparr>))
     = (Inl LedgerError,
        \<lparr>trace =
           [ReadFileSync ''./wallet.json'' ''utf-8'',
            UploadMetadata (example_metadata stub_keypair),
            ConsoleLog [''Metadata uploaded:'', ''loc://abc''],
            ConsoleLog [''Creating collection...''],
            Create \<lparr>ci_name = ''My Hybrid Collection'', ci_symbol = ''MHC'', ci_uri = ''loc://abc'',
                    ci_sellerFeeBasisPoints = 500,
                    ci_creators = [\<lparr>cr_address = PublicKey ''payer'', cr_share = 100\<rparr>],
                    ci_isMutable = True, ci_isCollection = True\<rparr>],
         world = stub_world0\<lparr>sw_accepts_create := False\<rparr>\<rparr>)"
proof -
  let ?w = "stub_world0\<lparr>sw_accepts_create := False\<rparr>"
  have rd: "host_readFileSync stub_host ''./wallet.json'' ''utf-8'' (world (start ?w))
              = (Inr ''[7,7,7]'', ?w)"
    by (rule stub_read_wallet) (simp add: stub_wallet0)
  have up: "nfts_uploadMetadata stub_sdk stub_metaplex (example_metadata stub_keypair) ?w
              = (Inr ''loc://abc'', ?w)"
    by (simp add: stub_sdk_def stub_uploadMetadata_def stub_world0_def)
  have cr: "nfts_create stub_sdk stub_metaplex
           \<lparr>ci_name = ''My Hybrid Collection'', ci_symbol = ''MHC'', ci_uri = ''loc://abc'',
            ci_sellerFeeBasisPoints = 500,
            ci_creators = [\<lparr>cr_address = publicKey stub_keypair, cr_share = 100\<rparr>],
            ci_isMutable = True, ci_isCollection = True\<rparr> ?w = (Inl LedgerError, ?w)"
    by (simp add: stub_sdk_def stub_create_def)
  from exampleCreateCollection_create_failure_drops_locator [OF rd stub_key stub_session up cr]
  have "fst (exampleCreateCollection stub_host stub_sdk (start ?w)) = Inl LedgerError"
    and "world (snd (exampleCreateCollection stub_host stub_sdk (start ?w))) = ?w"
    and "trace (snd (exampleCreateCollection stub_host stub_sdk (start ?w)))
           = [ReadFileSync ''./wallet.json'' ''utf-8'',
              UploadMetadata (example_metadata stub_keypair),
              ConsoleLog [''Metadata uploaded:'', ''loc://abc''],
              ConsoleLog [''Creating collection...''],
              Create \<lparr>ci_name = ''My Hybrid Collection'', ci_symbol = ''MHC'', ci_uri = ''loc://abc'',
                      ci_sellerFeeBasisPoints = 500,
                      ci_creators = [\<lparr>cr_address = PublicKey ''payer'', cr_share = 100\<rparr>],
                      ci_isMutable = True, ci_isCollection = True\<rparr>]"
    by (simp_all add: start_def stub_keypair_def)
  then show ?thesis
    by (cases "exampleCreateCollection stub_host stub_sdk (start ?w)") simp
qed

text \<open>
  C3 as stated fails. Two runs in which the publish succeeds with different locators
  (\<open>loc://abc\<close>, \<open>loc://xyz\<close>) and the ledger rejects the create return the same value,
  the ledger's error: the caller cannot read the locator off what the workflow returns.
\<close>

theorem exampleCreateCollection_locator_counterexample:
  "fst (exampleCreateCollection stub_host stub_sdk
          (start (stub_world0\<lparr>sw_locator := Some ''loc://abc'', sw_accepts_create := False\<rparr>)))
     = Inl LedgerError
   \<and> fst (exampleCreateCollection stub_host stub_sdk
          (start (stub_world0\<lparr>sw_locator := Some ''loc://xyz'', sw_accepts_create := False\<rparr>)))
     = Inl LedgerError
   \<and> map ci_uri (creates_of (trace (snd (exampleCreateCollection stub_host stub_sdk
          (start (stub_world0\<lparr>sw_locator := Some ''loc://abc'', sw_accepts_create := False\<rparr>))))))
     = [''loc://abc'']
   \<and> map ci_uri (creates_of (trace (snd (exampleCreateCollection stub_host stub_sdk
          (start (stub_world0\<lparr>sw_locator := Some ''loc://xyz'', sw_accepts_create := False\<rparr>))))))
     = [''loc://xyz'']"
proof -
  have run: "exampleCreateCollection stub_host stub_sdk
          (start (stub_world0\<lparr>sw_locator := Some loc, sw_accepts_create := False\<rparr>))
     = (Inl LedgerError,
        \<lparr>trace =
           [ReadFileSync ''./wallet.json'' ''utf-8'',
            UploadMetadata (example_metadata stub_keypair),
            ConsoleLog [''Metadata uploaded:'', loc],
            ConsoleLog [''Creating collection...''],
            Create \<lparr>ci_name = ''My Hybrid Collection'', ci_symbol = ''MHC'', ci_uri = loc,
                    ci_sellerFeeBasisPoints = 500,
                    ci_creators = [\<lparr>cr_address = publicKey stub_keypair, cr_share = 100\<rparr>],
                    ci_isMutable = True, ci_isCollection = True\<rparr>],
         world = stub_world0\<lparr>sw_locator := Some loc, sw_accepts_create := False\<rparr>\<rparr>)"
    for loc
  proof -
    let ?w = "stub_world0\<lparr>sw_locator := Some loc, sw_accepts_create := False\<rparr>"
    have rd: "host_readFileSync stub_host ''./wallet.json'' ''utf-8'' (world (start ?w))
                = (Inr ''[7,7,7]'', ?w)"
      by (rule stub_read_wallet) (simp add: stub_wallet0)
    have up: "nfts_uploadMetadata stub_sdk stub_metaplex (example_metadata stub_keypair) ?w
                = (Inr loc, ?w)"
      by (simp add: stub_sdk_def stub_uploadMetadata_def)
    have cr: "nfts_create stub_sdk stub_metaplex
             \<lparr>ci_name = ''My Hybrid Collection'', ci_symbol = ''MHC'', ci_uri = loc,
              ci_sellerFeeBasisPoints = 500,
              ci_creators = [\<lparr>cr_address = publicKey stub_keypair, cr_share = 100\<rparr>],
              ci_isMutable = True, ci_isCollection = True\<rparr> ?w = (Inl LedgerError, ?w)"
      by (simp add: stub_sdk_def stub_create_def)
    from exampleCreateCollection_create_step_rejected [OF rd stub_key stub_session up cr]
    show ?thesis by (simp add: start_def)
  qed
  show ?thesis by (simp add: run)
qed

subsection \<open>Updating\<close>

text \<open>
  C4. \<open>updateCollectionMetadata\<close> resolves the record first. When the address does not
  resolve, that is when the lookup is rejected with an error \<open>e\<close> (the SDK's not-found
  error), the operation fails with that same error \<open>e\<close>: the lookup is the only SDK call
  made, so no update transaction is issued and no error of the update step can arise.
\<close>

theorem updateCollectionMetadata_not_found:
  assumes "nfts_findByMint sdk mx a (world s) = (Inl e, w1)"
  shows "fst (updateCollectionMetadata sdk mx a newUri s) = Inl e
         \<and> sdk_calls (trace (snd (updateCollectionMetadata sdk mx a newUri s)))
             = sdk_calls (trace s) @ [FindByMint a]
         \<and> world (snd (updateCollectionMetadata sdk mx a newUri s)) = w1"
  by (simp add: updateCollectionMetadata_unresolved [OF assms] sdk_calls_def)

theorem updateCollectionMetadata_not_found_witness:
  "nfts_findByMint stub_sdk stub_metaplex (PublicKey ''nowhere'') stub_world1
     = (Inl NotFoundError, stub_world1)
   \<and> fst (updateCollectionMetadata stub_sdk stub_metaplex (PublicKey ''nowhere'') ''loc://xyz''
            (start stub_world1)) = Inl NotFoundError
   \<and> sdk_calls (trace (snd (updateCollectionMetadata stub_sdk stub_metaplex
            (PublicKey ''nowhere'') ''loc://xyz'' (start stub_world1))))
       = [FindByMint (PublicKey ''nowhere'')]
   \<and> world (snd (updateCollectionMetadata stub_sdk stub_metaplex
            (PublicKey ''nowhere'') ''loc://xyz'' (start stub_world1))) = stub_world1"
proof -
  have miss: "nfts_findByMint stub_sdk stub_metaplex (PublicKey ''nowhere'') stub_world1
                = (Inl NotFoundError, stub_world1)"
    by (simp add: stub_sdk_def stub_findByMint_def stub_world1_def)
  then have "nfts_findByMint stub_sdk stub_metaplex (PublicKey ''nowhere'')
               (world (start stub_world1)) = (Inl NotFoundError, stub_world1)"
    by (simp add: start_def)
  from updateCollectionMetadata_not_found [OF this, of "''loc://xyz''"] miss
  show ?thesis by (simp add: start_def sdk_calls_def)
qed

text \<open>
  C5. A successful \<open>updateCollectionMetadata\<close> issues one update, for the record it has
  just read at the address and naming only the new \<open>uri\<close>. On an SDK that keeps the
  contract (\<open>findByMint_reads\<close>, \<open>update_overwrites\<close>) and a ledger that files records
  under their own address, the ledger afterwards holds at that address the old record
  with \<open>uri\<close> replaced by the new locator; every other field of it, and every other
  record, is as before.
\<close>

theorem updateCollectionMetadata_overwrites_uri_only:
  assumes "findByMint_reads sdk lookup"
    and "update_overwrites sdk lookup"
    and "addressed (lookup (world s))"
    and "updateCollectionMetadata sdk mx a newUri s = (Inr (), s')"
  shows "\<exists>r. lookup (world s) a = Some r
             \<and> lookup (world s') = (lookup (world s))(a \<mapsto> r\<lparr>nft_uri := newUri\<rparr>)
             \<and> sdk_calls (trace s')
                 = sdk_calls (trace s) @ [FindByMint a, Update \<lparr>ui_nftOrSft = r, ui_uri = newUri\<rparr>]"
proof -
  from updateCollectionMetadata_succeeds [OF assms(4)] obtain r w1 where
    rd: "nfts_findByMint sdk mx a (world s) = (Inr r, w1)" and
    wr: "nfts_update sdk mx \<lparr>ui_nftOrSft = r, ui_uri = newUri\<rparr> w1 = (Inr (), world s')" and
    tr: "trace s' = trace s @
           [ConsoleLog [''Updating collection metadata...''],
            FindByMint a,
            Update \<lparr>ui_nftOrSft = r, ui_uri = newUri\<rparr>,
            ConsoleLog [check_mark @ '' Collection metadata updated!'']]"
    by blast
  from assms(1) rd have same: "w1 = world s" and found: "lookup (world s) a = Some r"
    unfolding findByMint_reads_def by blast+
  from assms(3) found have addr: "nft_address r = a"
    unfolding addressed_def by blast
  from assms(2) wr have
    "lookup (world s') = (lookup w1)(nft_address r \<mapsto> r\<lparr>nft_uri := newUri\<rparr>)"
    unfolding update_overwrites_def by fastforce
  with same addr have "lookup (world s') = (lookup (world s))(a \<mapsto> r\<lparr>nft_uri := newUri\<rparr>)"
    by simp
  moreover from tr have "sdk_calls (trace s')
      = sdk_calls (trace s) @ [FindByMint a, Update \<lparr>ui_nftOrSft = r, ui_uri = newUri\<rparr>]"
    by (simp add: sdk_calls_def)
  ultimately show ?thesis using found by blast
qed

theorem updateCollectionMetadata_overwrites_uri_only_witness:
  "fst (updateCollectionMetadata stub_sdk stub_metaplex (PublicKey ''addr123'') ''loc://xyz''
          (start stub_world1)) = Inr ()
   \<and> sw_ledger (world (snd (updateCollectionMetadata stub_sdk stub_metaplex
          (PublicKey ''addr123'') ''loc://xyz'' (start stub_world1))))
       = [PublicKey ''addr123'' \<mapsto> scenario_record\<lparr>nft_uri := ''loc://xyz''\<rparr>]
   \<and> sdk_calls (trace (snd (updateCollectionMetadata stub_sdk stub_metaplex
          (PublicKey ''addr123'') ''loc://xyz'' (start stub_world1))))
       = [FindByMint (PublicKey ''addr123''),
          Update \<lparr>ui_nftOrSft = scenario_record, ui_uri = ''loc://xyz''\<rparr>]"
proof -
  let ?a = "PublicKey ''addr123''"
  obtain u s' where run:
    "updateCollectionMetadata stub_sdk stub_metaplex ?a ''loc://xyz'' (start stub_world1) = (u, s')"
    by (cases "updateCollectionMetadata stub_sdk stub_metaplex ?a ''loc://xyz'' (start stub_world1)")
  have "fst (updateCollectionMetadata stub_sdk stub_metaplex ?a ''loc://xyz'' (start stub_world1))
          = Inr ()"
    by (simp add: updateCollectionMetadata_def invoke_def console_log_def start_def
          stub_sdk_def stub_findByMint_def stub_update_def stub_world1_def scenario_record_def)
  with run have ok:
    "updateCollectionMetadata stub_sdk stub_metaplex ?a ''loc://xyz'' (start stub_world1) = (Inr (), s')"
    by simp
  have wf: "addressed (sw_ledger (world (start stub_world1)))"
    by (simp add: addressed_def start_def stub_world1_def scenario_record_def)
  have led: "sw_ledger (world (start stub_world1)) = [?a \<mapsto> scenario_record]"
    by (simp add: start_def stub_world1_def)
  from updateCollectionMetadata_overwrites_uri_only
         [OF stub_findByMint_reads stub_update_overwrites wf ok]
  obtain r where
    "sw_ledger (world (start stub_world1)) ?a = Some r"
    "sw_ledger (world s') = (sw_ledger (world (start stub_world1)))(?a \<mapsto> r\<lparr>nft_uri := ''loc://xyz''\<rparr>)"
    "sdk_calls (trace s') = sdk_calls (trace (start stub_world1)) @
        [FindByMint ?a, Update \<lparr>ui_nftOrSft = r, ui_uri = ''loc://xyz''\<rparr>]"
    by blast
  with led have
    "sw_ledger (world s') = [?a \<mapsto> scenario_record\<lparr>nft_uri := ''loc://xyz''\<rparr>]"
    "sdk_calls (trace s') =
        [FindByMint ?a, Update \<lparr>ui_nftOrSft = scenario_record, ui_uri = ''loc://xyz''\<rparr>]"
    by (simp_all add: start_def sdk_calls_def)
  with ok show ?thesis by simp
qed

subsection \<open>Verifying\<close>

text \<open>
  C7. \<open>verifyCollection\<close> called twice with the same session, collection address and
  candidate address, on a ledger that accepts both submissions, returns without error
  both times and submits to the ledger twice: the second call is not suppressed.
\<close>

theorem verifyCollection_repeatable:
  assumes "nfts_verifyCollection sdk mx
             \<lparr>vi_mintAddress = n, vi_collectionMintAddress = c\<rparr> (world s) = (Inr (), w1)"
    and "nfts_verifyCollection sdk mx
             \<lparr>vi_mintAddress = n, vi_collectionMintAddress = c\<rparr> w1 = (Inr (), w2)"
  shows "fst (verifyCollection sdk mx c n s) = Inr ()
         \<and> fst (verifyCollection sdk mx c n (snd (verifyCollection sdk mx c n s))) = Inr ()
         \<and> sdk_calls (trace (snd (verifyCollection sdk mx c n (snd (verifyCollection sdk mx c n s)))))
             = sdk_calls (trace s) @
                 [VerifyCollection \<lparr>vi_mintAddress = n, vi_collectionMintAddress = c\<rparr>,
                  VerifyCollection \<lparr>vi_mintAddress = n, vi_collectionMintAddress = c\<rparr>]
         \<and> world (snd (verifyCollection sdk mx c n (snd (verifyCollection sdk mx c n s)))) = w2"
proof -
  note first = verifyCollection_accepted [OF assms(1)]
  let ?s1 = "snd (verifyCollection sdk mx c n s)"
  from first assms(2) have "nfts_verifyCollection sdk mx
             \<lparr>vi_mintAddress = n, vi_collectionMintAddress = c\<rparr> (world ?s1) = (Inr (), w2)"
    by simp
  note second = verifyCollection_accepted [OF this]
  show ?thesis
    unfolding second by (simp add: first sdk_calls_def)
qed

theorem verifyCollection_repeatable_witness:
  "fst (verifyCollection stub_sdk stub_metaplex (PublicKey ''addr123'') (PublicKey ''child'')
          (start stub_world1)) = Inr ()
   \<and> fst (verifyCollection stub_sdk stub_metaplex (PublicKey ''addr123'') (PublicKey ''child'')
          (snd (verifyCollection stub_sdk stub_metaplex (PublicKey ''addr123'') (PublicKey ''child'')
                  (start stub_world1)))) = Inr ()
   \<and> sdk_calls (trace (snd (verifyCollection stub_sdk stub_metaplex
          (PublicKey ''addr123'') (PublicKey ''child'')
          (snd (verifyCollection stub_sdk stub_metaplex (PublicKey ''addr123'') (PublicKey ''child'')
                  (start stub_world1))))))
       = [VerifyCollection \<lparr>vi_mintAddress = PublicKey ''child'',
                            vi_collectionMintAddress = PublicKey ''addr123''\<rparr>,
          VerifyCollection \<lparr>vi_mintAddress = PublicKey ''child'',
                            vi_collectionMintAddress = PublicKey ''addr123''\<rparr>]
   \<and> length (sw_verified (world (snd (verifyCollection stub_sdk stub_metaplex
          (PublicKey ''addr123'') (PublicKey ''child'')
          (snd (verifyCollection stub_sdk stub_metaplex (PublicKey ''addr123'') (PublicKey ''child'')
                  (start stub_world1))))))) = 2"
proof -
  let ?req = "\<lparr>vi_mintAddress = PublicKey ''child'',
               vi_collectionMintAddress = PublicKey ''addr123''\<rparr>"
  let ?w1 = "stub_world1\<lparr>sw_verified := [?req]\<rparr>"
  let ?w2 = "stub_world1\<lparr>sw_verified := [?req, ?req]\<rparr>"
  have one: "nfts_verifyCollection stub_sdk stub_metaplex ?req (world (start stub_world1))
               = (Inr (), ?w1)"
    by (simp add: stub_sdk_def stub_verifyCollection_def start_def stub_world1_def stub_world0_def)
  have two: "nfts_verifyCollection stub_sdk stub_metaplex ?req ?w1 = (Inr (), ?w2)"
    by (simp add: stub_sdk_def stub_verifyCollection_def stub_world1_def stub_world0_def)
  from verifyCollection_repeatable [OF one two]
  show ?thesis by (simp add: start_def sdk_calls_def)
qed

end
